theory Spec2Isabelle
  imports Complex_Main
begin

section \<open>JavaScript values and objects\<close>

text \<open>
  The library (\<^verbatim>\<open>gsap-animation-library.js\<close>) is a class whose methods read option
  objects, build configuration objects and hand them to the animation engine. Numbers are
  kept as their decimal values: the only arithmetic the library performs is the unary minus
  of the slide and shake presets, which is exact. \<open>NegZero\<close>, the infinities and \<open>NaN\<close> are
  the remaining number values.
\<close>

datatype jsnum = Fin rat | NegZero | PosInf | NegInf | NaN

text \<open>
  \<open>JFn\<close> is a callback, \<open>JAnim\<close> an animation object of the engine (a tween or a
  timeline, identified by its handle), \<open>JKillable\<close> an object that is no animation of
  the engine but has a \<^verbatim>\<open>kill\<close> method of its own (a \<^verbatim>\<open>ScrollTrigger\<close> instance,
  \<^verbatim>\<open>{ kill() {} }\<close>), \<open>JObj\<close> any other object.
\<close>

datatype jsval =
    JUndefined
  | JNull
  | JBool bool
  | JNum jsnum
  | JStr string
  | JFn nat
  | JAnim nat
  | JKillable nat
  | JObj nat

type_synonym obj = "string \<rightharpoonup> jsval"

abbreviation num :: "rat \<Rightarrow> jsval" where
  "num r \<equiv> JNum (Fin r)"

text \<open>Reading a property: \<^verbatim>\<open>o.k\<close> is \<^verbatim>\<open>undefined\<close> when the key is absent.\<close>

definition js_get :: "obj \<Rightarrow> string \<Rightarrow> jsval" where
  "js_get ob k = (case ob k of None \<Rightarrow> JUndefined | Some v \<Rightarrow> v)"

text \<open>Truthiness, as \<^verbatim>\<open>if (v)\<close> and \<^verbatim>\<open>v || d\<close> test it.\<close>

fun truthy :: "jsval \<Rightarrow> bool" where
  "truthy JUndefined = False"
| "truthy JNull = False"
| "truthy (JBool b) = b"
| "truthy (JNum (Fin r)) = (r \<noteq> 0)"
| "truthy (JNum NegZero) = False"
| "truthy (JNum NaN) = False"
| "truthy (JNum PosInf) = True"
| "truthy (JNum NegInf) = True"
| "truthy (JStr s) = (s \<noteq> [])"
| "truthy (JFn f) = True"
| "truthy (JAnim h) = True"
| "truthy (JKillable r) = True"
| "truthy (JObj r) = True"

text \<open>\<^verbatim>\<open>a || b\<close>\<close>

definition js_or :: "jsval \<Rightarrow> jsval \<Rightarrow> jsval" where
  "js_or a b = (if truthy a then a else b)"

text \<open>
  Unary minus, \<^verbatim>\<open>-v\<close>: the operand is converted to a number and its sign flipped. The
  conversion of strings and objects is the language's own; it is the parameter \<open>co\<close>.
\<close>

fun num_neg :: "jsnum \<Rightarrow> jsnum" where
  "num_neg (Fin r) = (if r = 0 then NegZero else Fin (- r))"
| "num_neg NegZero = Fin 0"
| "num_neg PosInf = NegInf"
| "num_neg NegInf = PosInf"
| "num_neg NaN = NaN"

fun to_number :: "(jsval \<Rightarrow> jsnum) \<Rightarrow> jsval \<Rightarrow> jsnum" where
  "to_number co JUndefined = NaN"
| "to_number co JNull = Fin 0"
| "to_number co (JBool b) = (if b then Fin 1 else Fin 0)"
| "to_number co (JNum n) = n"
| "to_number co v = co v"

definition js_neg :: "(jsval \<Rightarrow> jsnum) \<Rightarrow> jsval \<Rightarrow> jsval" where
  "js_neg co v = JNum (num_neg (to_number co v))"

section \<open>The animation engine\<close>

text \<open>
  A target is one element or an ordered collection of elements.
\<close>

datatype target = Element nat | Elements "nat list"

text \<open>
  The calls the library makes on the engine: \<^verbatim>\<open>gsap.set\<close>, \<^verbatim>\<open>gsap.to\<close>,
  \<^verbatim>\<open>gsap.timeline\<close>, \<^verbatim>\<open>gsap.killTweensOf\<close>, \<^verbatim>\<open>gsap.registerPlugin\<close>, and on a
  handle \<^verbatim>\<open>to\<close>, \<^verbatim>\<open>play\<close>, \<^verbatim>\<open>pause\<close>, \<^verbatim>\<open>reverse\<close>, \<^verbatim>\<open>restart\<close>, \<^verbatim>\<open>kill\<close>.
\<close>

datatype call =
    GsapSet target obj
  | GsapTo nat target obj
  | GsapTimeline nat "obj option"
  | TimelineTo nat target obj
  | Play nat
  | Pause nat
  | Reverse nat
  | Restart nat
  | Kill nat
  | KillTweensOf string
  | RegisterPlugin
  | KillObject nat

text \<open>
  Modelled from the spec: the engine (the global \<^verbatim>\<open>gsap\<close> object) is an external
  collaborator, "an opaque capability" with the interface "animate(target-or-targets,
  property-end-states, timing-config) \<rightarrow> handle; set(target, properties);
  create-sequence(config) \<rightarrow> sequence-handle". It is modelled as a recording capability:
  every call is appended to \<open>calls\<close>, in order, and every tween or timeline it creates is
  a new object, identified by the next free handle.
\<close>

record engine =
  calls :: "call list"
  next_handle :: nat

definition gsap_set :: "target \<Rightarrow> obj \<Rightarrow> engine \<Rightarrow> engine" where
  "gsap_set t vars e = e\<lparr>calls := calls e @ [GsapSet t vars]\<rparr>"

definition gsap_to :: "target \<Rightarrow> obj \<Rightarrow> engine \<Rightarrow> nat \<times> engine" where
  "gsap_to t vars e =
     (next_handle e,
      e\<lparr>calls := calls e @ [GsapTo (next_handle e) t vars],
        next_handle := Suc (next_handle e)\<rparr>)"

definition gsap_timeline :: "obj option \<Rightarrow> engine \<Rightarrow> nat \<times> engine" where
  "gsap_timeline vars e =
     (next_handle e,
      e\<lparr>calls := calls e @ [GsapTimeline (next_handle e) vars],
        next_handle := Suc (next_handle e)\<rparr>)"

text \<open>\<^verbatim>\<open>tl.to(target, vars)\<close> returns the timeline itself, which is what the chained calls rely on.\<close>

definition timeline_to :: "nat \<Rightarrow> target \<Rightarrow> obj \<Rightarrow> engine \<Rightarrow> engine" where
  "timeline_to tline t vars e = e\<lparr>calls := calls e @ [TimelineTo tline t vars]\<rparr>"

definition handle_play :: "nat \<Rightarrow> engine \<Rightarrow> engine" where
  "handle_play h e = e\<lparr>calls := calls e @ [Play h]\<rparr>"

definition handle_pause :: "nat \<Rightarrow> engine \<Rightarrow> engine" where
  "handle_pause h e = e\<lparr>calls := calls e @ [Pause h]\<rparr>"

definition handle_reverse :: "nat \<Rightarrow> engine \<Rightarrow> engine" where
  "handle_reverse h e = e\<lparr>calls := calls e @ [Reverse h]\<rparr>"

definition handle_restart :: "nat \<Rightarrow> engine \<Rightarrow> engine" where
  "handle_restart h e = e\<lparr>calls := calls e @ [Restart h]\<rparr>"

definition handle_kill :: "nat \<Rightarrow> engine \<Rightarrow> engine" where
  "handle_kill h e = e\<lparr>calls := calls e @ [Kill h]\<rparr>"

definition gsap_killTweensOf :: "string \<Rightarrow> engine \<Rightarrow> engine" where
  "gsap_killTweensOf sel e = e\<lparr>calls := calls e @ [KillTweensOf sel]\<rparr>"

text \<open>
  \<^verbatim>\<open>kill()\<close> on an object that is no tween or timeline of the engine: the call is
  recorded, what the method does is the object's own business.
\<close>

definition object_kill :: "nat \<Rightarrow> engine \<Rightarrow> engine" where
  "object_kill r e = e\<lparr>calls := calls e @ [KillObject r]\<rparr>"

definition gsap_registerPlugin :: "engine \<Rightarrow> engine" where
  "gsap_registerPlugin e = e\<lparr>calls := calls e @ [RegisterPlugin]\<rparr>"

text \<open>
  A handle is stopped once \<^verbatim>\<open>kill()\<close> has been called on it.
  \<^verbatim>\<open>gsap.killTweensOf(selector)\<close> is no call on a handle: it asks the engine to kill the
  tweens of the targets the selector matches, and is recorded as that request.
\<close>

definition killed :: "engine \<Rightarrow> nat \<Rightarrow> bool" where
  "killed e h = (Kill h \<in> set (calls e))"

section \<open>The library object\<close>

text \<open>
  \<^verbatim>\<open>this.activeAnimations\<close> is a JavaScript \<^verbatim>\<open>Set\<close>: it keeps insertion order (which
  \<^verbatim>\<open>forEach\<close> follows) and holds no element twice. \<^verbatim>\<open>this.timelines\<close> is a \<^verbatim>\<open>Map\<close>
  from names to timeline handles. The state also carries the engine the methods act on.
\<close>

record state =
  activeAnimations :: "nat list"
  timelines :: "string \<rightharpoonup> nat"
  gsap :: engine

definition set_add :: "nat \<Rightarrow> nat list \<Rightarrow> nat list" where
  "set_add x xs = (if x \<in> set xs then xs else xs @ [x])"

definition set_delete :: "nat \<Rightarrow> nat list \<Rightarrow> nat list" where
  "set_delete x xs = removeAll x xs"

datatype error = GsapRequired | TypeError

text \<open>
  The constructor throws when the engine is absent (\<open>None\<close>); it registers the
  \<^verbatim>\<open>ScrollTrigger\<close> plugin when that is present. The method \<^verbatim>\<open>scrollTrigger\<close>, which
  only passes its arguments on to that plugin, is left out.
\<close>

definition constructor :: "engine option \<Rightarrow> bool \<Rightarrow> error + state" where
  "constructor g scrollTrigger_present =
     (case g of
        None \<Rightarrow> Inl GsapRequired
      | Some e \<Rightarrow>
          Inr \<lparr>activeAnimations = [], timelines = Map.empty,
               gsap = (if scrollTrigger_present then gsap_registerPlugin e else e)\<rparr>)"

subsection \<open>The base method\<close>

definition defaults :: obj where
  "defaults =
     [''duration'' \<mapsto> num 1, ''ease'' \<mapsto> JStr ''power2.out'', ''delay'' \<mapsto> num 0,
      ''onComplete'' \<mapsto> JNull, ''onStart'' \<mapsto> JNull]"

text \<open>
  The configuration of \<^verbatim>\<open>animate\<close>: the spread
  \<^verbatim>\<open>{ ...defaults, ...options, ...properties }\<close>, then the two conditional assignments of
  \<^verbatim>\<open>options.onStart\<close> and \<^verbatim>\<open>options.onComplete\<close>.
\<close>

definition animate_config :: "obj \<Rightarrow> obj \<Rightarrow> obj" where
  "animate_config properties options =
     (let config = defaults ++ options ++ properties;
          config = (if truthy (js_get options ''onStart'')
                    then config(''onStart'' \<mapsto> js_get options ''onStart'') else config);
          config = (if truthy (js_get options ''onComplete'')
                    then config(''onComplete'' \<mapsto> js_get options ''onComplete'') else config)
      in config)"

definition animate :: "target \<Rightarrow> obj \<Rightarrow> obj \<Rightarrow> state \<Rightarrow> nat \<times> state" where
  "animate element properties options s =
     (let config = animate_config properties options;
          (animation, g) = gsap_to element config (gsap s)
      in (animation,
          s\<lparr>gsap := g, activeAnimations := set_add animation (activeAnimations s)\<rparr>))"

subsection \<open>Presets built on the base method\<close>

definition fadeIn :: "target \<Rightarrow> obj \<Rightarrow> state \<Rightarrow> nat \<times> state" where
  "fadeIn element options s =
     animate element [''opacity'' \<mapsto> num 1] options
       (s\<lparr>gsap := gsap_set element [''opacity'' \<mapsto> num 0] (gsap s)\<rparr>)"

definition fadeOut :: "target \<Rightarrow> obj \<Rightarrow> state \<Rightarrow> nat \<times> state" where
  "fadeOut element options s = animate element [''opacity'' \<mapsto> num 0] options s"

definition slideUp :: "target \<Rightarrow> obj \<Rightarrow> state \<Rightarrow> nat \<times> state" where
  "slideUp element options s =
     (let distance = js_or (js_get options ''distance'') (num 100)
      in animate element [''y'' \<mapsto> num 0, ''opacity'' \<mapsto> num 1] options
           (s\<lparr>gsap := gsap_set element [''y'' \<mapsto> distance, ''opacity'' \<mapsto> num 0] (gsap s)\<rparr>))"

definition slideDown :: "(jsval \<Rightarrow> jsnum) \<Rightarrow> target \<Rightarrow> obj \<Rightarrow> state \<Rightarrow> nat \<times> state" where
  "slideDown co element options s =
     (let distance = js_or (js_get options ''distance'') (num 100)
      in animate element [''y'' \<mapsto> num 0, ''opacity'' \<mapsto> num 1] options
           (s\<lparr>gsap := gsap_set element [''y'' \<mapsto> js_neg co distance, ''opacity'' \<mapsto> num 0]
                        (gsap s)\<rparr>))"

definition slideLeft :: "target \<Rightarrow> obj \<Rightarrow> state \<Rightarrow> nat \<times> state" where
  "slideLeft element options s =
     (let distance = js_or (js_get options ''distance'') (num 100)
      in animate element [''x'' \<mapsto> num 0, ''opacity'' \<mapsto> num 1] options
           (s\<lparr>gsap := gsap_set element [''x'' \<mapsto> distance, ''opacity'' \<mapsto> num 0] (gsap s)\<rparr>))"

definition slideRight :: "(jsval \<Rightarrow> jsnum) \<Rightarrow> target \<Rightarrow> obj \<Rightarrow> state \<Rightarrow> nat \<times> state" where
  "slideRight co element options s =
     (let distance = js_or (js_get options ''distance'') (num 100)
      in animate element [''x'' \<mapsto> num 0, ''opacity'' \<mapsto> num 1] options
           (s\<lparr>gsap := gsap_set element [''x'' \<mapsto> js_neg co distance, ''opacity'' \<mapsto> num 0]
                        (gsap s)\<rparr>))"

definition scaleUp :: "target \<Rightarrow> obj \<Rightarrow> state \<Rightarrow> nat \<times> state" where
  "scaleUp element options s =
     animate element [''scale'' \<mapsto> num 1, ''opacity'' \<mapsto> num 1]
       ([''ease'' \<mapsto> JStr ''back.out(1.7)''] ++ options)
       (s\<lparr>gsap := gsap_set element [''scale'' \<mapsto> num 0, ''opacity'' \<mapsto> num 0] (gsap s)\<rparr>)"

definition scaleDown :: "target \<Rightarrow> obj \<Rightarrow> state \<Rightarrow> nat \<times> state" where
  "scaleDown element options s =
     animate element [''scale'' \<mapsto> num 0, ''opacity'' \<mapsto> num 0]
       ([''ease'' \<mapsto> JStr ''back.in(1.7)''] ++ options) s"

definition rotateIn :: "target \<Rightarrow> obj \<Rightarrow> state \<Rightarrow> nat \<times> state" where
  "rotateIn element options s =
     animate element [''rotation'' \<mapsto> num 0, ''scale'' \<mapsto> num 1, ''opacity'' \<mapsto> num 1]
       ([''ease'' \<mapsto> JStr ''back.out(1.7)''] ++ options)
       (s\<lparr>gsap := gsap_set element
                    [''rotation'' \<mapsto> num (- 180), ''scale'' \<mapsto> num 0, ''opacity'' \<mapsto> num 0]
                    (gsap s)\<rparr>)"

definition rotateOut :: "target \<Rightarrow> obj \<Rightarrow> state \<Rightarrow> nat \<times> state" where
  "rotateOut element options s =
     animate element [''rotation'' \<mapsto> num 180, ''scale'' \<mapsto> num 0, ''opacity'' \<mapsto> num 0]
       ([''ease'' \<mapsto> JStr ''back.in(1.7)''] ++ options) s"

definition bounceIn :: "target \<Rightarrow> obj \<Rightarrow> state \<Rightarrow> nat \<times> state" where
  "bounceIn element options s =
     animate element [''y'' \<mapsto> num 0, ''opacity'' \<mapsto> num 1]
       ([''ease'' \<mapsto> JStr ''bounce.out'', ''duration'' \<mapsto> num (3 / 2)] ++ options)
       (s\<lparr>gsap := gsap_set element [''y'' \<mapsto> num (- 100), ''opacity'' \<mapsto> num 0] (gsap s)\<rparr>)"

definition elastic :: "target \<Rightarrow> obj \<Rightarrow> state \<Rightarrow> nat \<times> state" where
  "elastic element options s =
     animate element [''scale'' \<mapsto> num 1, ''opacity'' \<mapsto> num 1]
       ([''ease'' \<mapsto> JStr ''elastic.out(1, 0.5)'', ''duration'' \<mapsto> num (3 / 2)] ++ options)
       (s\<lparr>gsap := gsap_set element [''scale'' \<mapsto> num 0, ''opacity'' \<mapsto> num 0] (gsap s)\<rparr>)"

definition flip :: "target \<Rightarrow> obj \<Rightarrow> state \<Rightarrow> nat \<times> state" where
  "flip element options s =
     animate element [''rotationY'' \<mapsto> num 360] ([''duration'' \<mapsto> num 1] ++ options) s"

subsection \<open>Presets that call the engine directly\<close>

definition shake :: "(jsval \<Rightarrow> jsnum) \<Rightarrow> target \<Rightarrow> obj \<Rightarrow> state \<Rightarrow> nat \<times> state" where
  "shake co element options s =
     (let (tline, g) = gsap_timeline None (gsap s);
          intensity = js_or (js_get options ''intensity'') (num 10);
          g = timeline_to tline element
                [''x'' \<mapsto> js_neg co intensity, ''duration'' \<mapsto> num (1 / 10)] g;
          g = timeline_to tline element [''x'' \<mapsto> intensity, ''duration'' \<mapsto> num (1 / 10)] g;
          g = timeline_to tline element
                [''x'' \<mapsto> js_neg co intensity, ''duration'' \<mapsto> num (1 / 10)] g;
          g = timeline_to tline element [''x'' \<mapsto> intensity, ''duration'' \<mapsto> num (1 / 10)] g;
          g = timeline_to tline element [''x'' \<mapsto> num 0, ''duration'' \<mapsto> num (1 / 10)] g
      in (tline, s\<lparr>gsap := g\<rparr>))"

definition pulse :: "target \<Rightarrow> obj \<Rightarrow> state \<Rightarrow> nat \<times> state" where
  "pulse element options s =
     (let (tline, g) =
            gsap_timeline (Some [''repeat'' \<mapsto> js_or (js_get options ''repeat'') (num 2)])
              (gsap s);
          g = timeline_to tline element
                [''scale'' \<mapsto> num (11 / 10), ''duration'' \<mapsto> num (3 / 10)] g;
          g = timeline_to tline element [''scale'' \<mapsto> num 1, ''duration'' \<mapsto> num (3 / 10)] g
      in (tline, s\<lparr>gsap := g\<rparr>))"

definition staggerFadeIn :: "target \<Rightarrow> obj \<Rightarrow> state \<Rightarrow> nat \<times> state" where
  "staggerFadeIn elements options s =
     (let g = gsap_set elements [''opacity'' \<mapsto> num 0] (gsap s);
          (tween, g) = gsap_to elements
            [''opacity'' \<mapsto> num 1,
             ''duration'' \<mapsto> js_or (js_get options ''duration'') (num 1),
             ''stagger'' \<mapsto> js_or (js_get options ''stagger'') (num (1 / 5)),
             ''ease'' \<mapsto> js_or (js_get options ''ease'') (JStr ''power2.out''),
             ''delay'' \<mapsto> js_or (js_get options ''delay'') (num 0)] g
      in (tween, s\<lparr>gsap := g\<rparr>))"

definition staggerSlideUp :: "target \<Rightarrow> obj \<Rightarrow> state \<Rightarrow> nat \<times> state" where
  "staggerSlideUp elements options s =
     (let distance = js_or (js_get options ''distance'') (num 50);
          g = gsap_set elements [''y'' \<mapsto> distance, ''opacity'' \<mapsto> num 0] (gsap s);
          (tween, g) = gsap_to elements
            [''y'' \<mapsto> num 0,
             ''opacity'' \<mapsto> num 1,
             ''duration'' \<mapsto> js_or (js_get options ''duration'') (num 1),
             ''stagger'' \<mapsto> js_or (js_get options ''stagger'') (num (1 / 5)),
             ''ease'' \<mapsto> js_or (js_get options ''ease'') (JStr ''power2.out''),
             ''delay'' \<mapsto> js_or (js_get options ''delay'') (num 0)] g
      in (tween, s\<lparr>gsap := g\<rparr>))"

definition staggerScale :: "target \<Rightarrow> obj \<Rightarrow> state \<Rightarrow> nat \<times> state" where
  "staggerScale elements options s =
     (let g = gsap_set elements [''scale'' \<mapsto> num 0, ''opacity'' \<mapsto> num 0] (gsap s);
          (tween, g) = gsap_to elements
            [''scale'' \<mapsto> num 1,
             ''opacity'' \<mapsto> num 1,
             ''duration'' \<mapsto> js_or (js_get options ''duration'') (num 1),
             ''stagger'' \<mapsto> js_or (js_get options ''stagger'') (num (1 / 5)),
             ''ease'' \<mapsto> js_or (js_get options ''ease'') (JStr ''back.out(1.7)''),
             ''delay'' \<mapsto> js_or (js_get options ''delay'') (num 0)] g
      in (tween, s\<lparr>gsap := g\<rparr>))"

subsection \<open>The timeline registry\<close>

definition createTimeline :: "string \<Rightarrow> obj \<Rightarrow> state \<Rightarrow> nat \<times> state" where
  "createTimeline name options s =
     (let (timeline, g) = gsap_timeline (Some options) (gsap s)
      in (timeline, s\<lparr>gsap := g, timelines := (timelines s)(name \<mapsto> timeline)\<rparr>))"

text \<open>\<^verbatim>\<open>Map.get\<close> gives \<^verbatim>\<open>undefined\<close> for an unknown key: \<open>None\<close>.\<close>

definition getTimeline :: "string \<Rightarrow> state \<Rightarrow> nat option" where
  "getTimeline name s = timelines s name"

definition playTimeline :: "string \<Rightarrow> state \<Rightarrow> state" where
  "playTimeline name s =
     (case timelines s name of
        Some timeline \<Rightarrow> s\<lparr>gsap := handle_play timeline (gsap s)\<rparr>
      | None \<Rightarrow> s)"

definition pauseTimeline :: "string \<Rightarrow> state \<Rightarrow> state" where
  "pauseTimeline name s =
     (case timelines s name of
        Some timeline \<Rightarrow> s\<lparr>gsap := handle_pause timeline (gsap s)\<rparr>
      | None \<Rightarrow> s)"

definition reverseTimeline :: "string \<Rightarrow> state \<Rightarrow> state" where
  "reverseTimeline name s =
     (case timelines s name of
        Some timeline \<Rightarrow> s\<lparr>gsap := handle_reverse timeline (gsap s)\<rparr>
      | None \<Rightarrow> s)"

definition restartTimeline :: "string \<Rightarrow> state \<Rightarrow> state" where
  "restartTimeline name s =
     (case timelines s name of
        Some timeline \<Rightarrow> s\<lparr>gsap := handle_restart timeline (gsap s)\<rparr>
      | None \<Rightarrow> s)"

subsection \<open>Cancellation\<close>

text \<open>
  \<^verbatim>\<open>killAll\<close>: \<^verbatim>\<open>forEach\<close> over the active set in insertion order, \<^verbatim>\<open>clear\<close>, then
  \<^verbatim>\<open>gsap.killTweensOf('*')\<close>.
\<close>

definition killAll :: "state \<Rightarrow> state" where
  "killAll s =
     (let g = foldl (\<lambda>g anim. handle_kill anim g) (gsap s) (activeAnimations s)
      in s\<lparr>activeAnimations := [], gsap := gsap_killTweensOf ''*'' g\<rparr>)"

text \<open>
  \<^verbatim>\<open>killAnimation\<close>: nothing for a falsy argument. For a truthy argument the code calls
  \<^verbatim>\<open>animation.kill()\<close> on whatever it is given and then deletes it from the active set:
  an animation of the engine is killed and deleted; another object with a \<^verbatim>\<open>kill\<close> method
  has that method called, and the deletion finds nothing, since the active set holds
  animations only; on any other truthy value \<^verbatim>\<open>animation.kill\<close> is no function and the
  call raises a \<^verbatim>\<open>TypeError\<close>.
\<close>

definition killAnimation :: "jsval \<Rightarrow> state \<Rightarrow> error + state" where
  "killAnimation animation s =
     (if truthy animation then
        (case animation of
           JAnim h \<Rightarrow>
             Inr (s\<lparr>gsap := handle_kill h (gsap s),
                    activeAnimations := set_delete h (activeAnimations s)\<rparr>)
         | JKillable r \<Rightarrow> Inr (s\<lparr>gsap := object_kill r (gsap s)\<rparr>)
         | _ \<Rightarrow> Inl TypeError)
      else Inr s)"

definition resetElement :: "target \<Rightarrow> state \<Rightarrow> state" where
  "resetElement element s =
     s\<lparr>gsap := gsap_set element [''clearProps'' \<mapsto> JStr ''x,y,scale,rotation,opacity,transform'']
                  (gsap s)\<rparr>"

subsection \<open>A fresh library object\<close>

definition fresh_engine :: engine where
  "fresh_engine = \<lparr>calls = [], next_handle = 0\<rparr>"

definition new_library :: state where
  "new_library = \<lparr>activeAnimations = [], timelines = Map.empty, gsap = fresh_engine\<rparr>"

text \<open>A library object on which two tweens have been started, with handles 0 and 1.\<close>

definition two_tweens :: state where
  "two_tweens =
     snd (fadeOut (Element 1) Map.empty (snd (fadeOut (Element 0) Map.empty new_library)))"

section \<open>Observations\<close>

text \<open>
  The calls a method has issued: what the engine's log holds after the call beyond what it
  held before. The initial states are the property maps of the \<^verbatim>\<open>gsap.set\<close> calls among
  them, the final states the configurations of the \<^verbatim>\<open>gsap.to\<close> calls, read at the keys
  \<open>ks\<close> the preset animates.
\<close>

fun set_vars :: "call \<Rightarrow> obj option" where
  "set_vars (GsapSet t vars) = Some vars"
| "set_vars c = None"

fun to_vars :: "call \<Rightarrow> obj option" where
  "to_vars (GsapTo h t vars) = Some vars"
| "to_vars c = None"

definition issued :: "state \<Rightarrow> state \<Rightarrow> call list" where
  "issued s s' = drop (length (calls (gsap s))) (calls (gsap s'))"

definition initial_states :: "call list \<Rightarrow> obj list" where
  "initial_states cs = List.map_filter set_vars cs"

definition final_states :: "string set \<Rightarrow> call list \<Rightarrow> obj list" where
  "final_states ks cs = map (\<lambda>vars. vars |` ks) (List.map_filter to_vars cs)"

text \<open>
  A handle is within reach of \<^verbatim>\<open>killAll\<close> when it is in the active set, or stopped
  already.
\<close>

definition reachable :: "state \<Rightarrow> nat \<Rightarrow> bool" where
  "reachable s h = (h \<in> set (activeAnimations s) \<or> killed (gsap s) h)"

text \<open>
  The configuration as the specification words it, for comparison with \<open>animate_config\<close>:
  the defaults \<^verbatim>\<open>{duration: 1, ease: 'power2.out', delay: 0}\<close>, then the options, then
  the raw properties, later layers overriding earlier ones on every key.
\<close>

definition claimed_defaults :: obj where
  "claimed_defaults =
     [''duration'' \<mapsto> num 1, ''ease'' \<mapsto> JStr ''power2.out'', ''delay'' \<mapsto> num 0]"

definition claimed_config :: "obj \<Rightarrow> obj \<Rightarrow> obj" where
  "claimed_config properties options = claimed_defaults ++ options ++ properties"

section \<open>Basic facts\<close>

lemma constructor_new_library: "constructor (Some fresh_engine) False = Inr new_library"
  by (simp add: constructor_def new_library_def)

lemma constructor_without_engine: "constructor None b = Inl GsapRequired"
  by (simp add: constructor_def)

text \<open>
  \<^verbatim>\<open>killAnimation\<close> on a truthy argument that is no animation of the engine: an object with
  a \<^verbatim>\<open>kill\<close> method has it called and the active set stays as it is; a number raises.
\<close>

lemma killAnimation_other:
  "killAnimation (JKillable r) s =
     Inr (s\<lparr>gsap := (gsap s)\<lparr>calls := calls (gsap s) @ [KillObject r]\<rparr>\<rparr>)"
  "killAnimation (num 5) s = Inl TypeError"
  "killAnimation (JObj r) s = Inl TypeError"
  by (simp_all add: killAnimation_def object_kill_def)

lemma animate_gsap:
  "gsap (snd (animate element properties options s)) =
     (gsap s)\<lparr>calls := calls (gsap s) @
                 [GsapTo (next_handle (gsap s)) element (animate_config properties options)],
              next_handle := Suc (next_handle (gsap s))\<rparr>"
  by (simp add: animate_def gsap_to_def)

lemma animate_handle: "fst (animate element properties options s) = next_handle (gsap s)"
  by (simp add: animate_def gsap_to_def)

lemma animate_tracks:
  "fst (animate element properties options s) \<in>
     set (activeAnimations (snd (animate element properties options s)))"
  by (simp add: animate_def gsap_to_def set_add_def)

lemma animate_config_key:
  "animate_config properties options k =
     (if (k = ''onStart'' \<or> k = ''onComplete'') \<and> truthy (js_get options k)
      then Some (js_get options k)
      else case properties k of
             Some v \<Rightarrow> Some v
           | None \<Rightarrow> (case options k of Some v \<Rightarrow> Some v | None \<Rightarrow> defaults k))"
  by (auto simp add: animate_config_def Let_def map_add_def split: option.splits)

text \<open>
  On the keys of the raw property map, the configuration is the raw property map (the
  presets never pass a callback as a raw property).
\<close>

lemma animate_config_final:
  "dom properties = ks \<Longrightarrow> ''onStart'' \<notin> ks \<Longrightarrow> ''onComplete'' \<notin> ks \<Longrightarrow>
     animate_config properties options |` ks = properties"
proof (rule ext)
  fix k
  assume d: "dom properties = ks" and a: "''onStart'' \<notin> ks" and b: "''onComplete'' \<notin> ks"
  show "(animate_config properties options |` ks) k = properties k"
  proof (cases "k \<in> ks")
    case True
    then obtain v where "properties k = Some v" using d by auto
    moreover have "k \<noteq> ''onStart''" "k \<noteq> ''onComplete''" using True a b by auto
    ultimately show ?thesis using True by (simp add: animate_config_key restrict_map_def)
  next
    case False
    then have "properties k = None" using d by auto
    then show ?thesis using False by (simp add: restrict_map_def)
  qed
qed

lemma issued_append: "calls (gsap s') = calls (gsap s) @ cs \<Longrightarrow> issued s s' = cs"
  by (simp add: issued_def)

lemma animate_issued:
  "issued s (snd (animate element properties options (s\<lparr>gsap := gsap_set t vars (gsap s)\<rparr>))) =
     [GsapSet t vars,
      GsapTo (next_handle (gsap s)) element (animate_config properties options)]"
  by (rule issued_append) (simp add: animate_gsap gsap_set_def)

lemma stagger_issued:
  "issued s (snd (staggerFadeIn elements options s)) =
     [GsapSet elements [''opacity'' \<mapsto> num 0],
      GsapTo (next_handle (gsap s)) elements
        [''opacity'' \<mapsto> num 1,
         ''duration'' \<mapsto> js_or (js_get options ''duration'') (num 1),
         ''stagger'' \<mapsto> js_or (js_get options ''stagger'') (num (1 / 5)),
         ''ease'' \<mapsto> js_or (js_get options ''ease'') (JStr ''power2.out''),
         ''delay'' \<mapsto> js_or (js_get options ''delay'') (num 0)]]"
  "issued s (snd (staggerSlideUp elements options s)) =
     [GsapSet elements
        [''y'' \<mapsto> js_or (js_get options ''distance'') (num 50), ''opacity'' \<mapsto> num 0],
      GsapTo (next_handle (gsap s)) elements
        [''y'' \<mapsto> num 0,
         ''opacity'' \<mapsto> num 1,
         ''duration'' \<mapsto> js_or (js_get options ''duration'') (num 1),
         ''stagger'' \<mapsto> js_or (js_get options ''stagger'') (num (1 / 5)),
         ''ease'' \<mapsto> js_or (js_get options ''ease'') (JStr ''power2.out''),
         ''delay'' \<mapsto> js_or (js_get options ''delay'') (num 0)]]"
  "issued s (snd (staggerScale elements options s)) =
     [GsapSet elements [''scale'' \<mapsto> num 0, ''opacity'' \<mapsto> num 0],
      GsapTo (next_handle (gsap s)) elements
        [''scale'' \<mapsto> num 1,
         ''opacity'' \<mapsto> num 1,
         ''duration'' \<mapsto> js_or (js_get options ''duration'') (num 1),
         ''stagger'' \<mapsto> js_or (js_get options ''stagger'') (num (1 / 5)),
         ''ease'' \<mapsto> js_or (js_get options ''ease'') (JStr ''back.out(1.7)''),
         ''delay'' \<mapsto> js_or (js_get options ''delay'') (num 0)]]"
  by (rule issued_append,
      simp add: staggerFadeIn_def staggerSlideUp_def staggerScale_def gsap_set_def gsap_to_def
        Let_def)+

lemma restrict_opacity:
  "(m(''opacity'' \<mapsto> a, ''duration'' \<mapsto> b, ''stagger'' \<mapsto> c, ''ease'' \<mapsto> d, ''delay'' \<mapsto> e))
     |` {''opacity''} = [''opacity'' \<mapsto> a]"
  by (rule ext) (simp add: restrict_map_def)

lemma restrict_y_opacity:
  "[''y'' \<mapsto> y, ''opacity'' \<mapsto> a, ''duration'' \<mapsto> b, ''stagger'' \<mapsto> c, ''ease'' \<mapsto> d,
    ''delay'' \<mapsto> e] |` {''y'', ''opacity''} = [''y'' \<mapsto> y, ''opacity'' \<mapsto> a]"
  by (rule ext) (simp add: restrict_map_def)

lemma restrict_scale_opacity:
  "[''scale'' \<mapsto> y, ''opacity'' \<mapsto> a, ''duration'' \<mapsto> b, ''stagger'' \<mapsto> c, ''ease'' \<mapsto> d,
    ''delay'' \<mapsto> e] |` {''scale'', ''opacity''} = [''scale'' \<mapsto> y, ''opacity'' \<mapsto> a]"
  by (rule ext) (simp add: restrict_map_def)

lemma slide_final:
  "animate_config [''y'' \<mapsto> num 0, ''opacity'' \<mapsto> num 1] options |` {''y'', ''opacity''} =
     [''y'' \<mapsto> num 0, ''opacity'' \<mapsto> num 1]"
  "animate_config [''x'' \<mapsto> num 0, ''opacity'' \<mapsto> num 1] options |` {''x'', ''opacity''} =
     [''x'' \<mapsto> num 0, ''opacity'' \<mapsto> num 1]"
  by (rule animate_config_final; auto)+

lemma slideUp_initial:
  "initial_states (issued t (snd (slideUp element options t))) =
     [[''y'' \<mapsto> js_or (js_get options ''distance'') (num 100), ''opacity'' \<mapsto> num 0]]"
  by (simp add: slideUp_def animate_issued initial_states_def)

lemma staggerSlideUp_initial:
  "initial_states (issued s (snd (staggerSlideUp elements options s))) =
     [[''y'' \<mapsto> js_or (js_get options ''distance'') (num 50), ''opacity'' \<mapsto> num 0]]"
  by (simp add: stagger_issued initial_states_def)

subsection \<open>Which handles are tracked\<close>

text \<open>Every preset that goes through \<^verbatim>\<open>animate\<close> returns a handle of the active set.\<close>

lemma presets_track:
  "fst (fadeIn element options s) \<in> set (activeAnimations (snd (fadeIn element options s)))"
  "fst (fadeOut element options s) \<in> set (activeAnimations (snd (fadeOut element options s)))"
  "fst (slideUp element options s) \<in> set (activeAnimations (snd (slideUp element options s)))"
  "fst (slideDown co element options s) \<in>
     set (activeAnimations (snd (slideDown co element options s)))"
  "fst (slideLeft element options s) \<in>
     set (activeAnimations (snd (slideLeft element options s)))"
  "fst (slideRight co element options s) \<in>
     set (activeAnimations (snd (slideRight co element options s)))"
  "fst (scaleUp element options s) \<in> set (activeAnimations (snd (scaleUp element options s)))"
  "fst (scaleDown element options s) \<in>
     set (activeAnimations (snd (scaleDown element options s)))"
  "fst (rotateIn element options s) \<in> set (activeAnimations (snd (rotateIn element options s)))"
  "fst (rotateOut element options s) \<in>
     set (activeAnimations (snd (rotateOut element options s)))"
  "fst (bounceIn element options s) \<in> set (activeAnimations (snd (bounceIn element options s)))"
  "fst (elastic element options s) \<in> set (activeAnimations (snd (elastic element options s)))"
  "fst (flip element options s) \<in> set (activeAnimations (snd (flip element options s)))"
  by (simp_all add: fadeIn_def fadeOut_def slideUp_def slideDown_def slideLeft_def
      slideRight_def scaleUp_def scaleDown_def rotateIn_def rotateOut_def bounceIn_def
      elastic_def flip_def animate_tracks Let_def)

subsection \<open>What \<^verbatim>\<open>killAll\<close> reaches\<close>

lemma kill_each_calls:
  "calls (foldl (\<lambda>g anim. handle_kill anim g) g xs) = calls g @ map Kill xs"
  by (induction xs arbitrary: g) (simp_all add: handle_kill_def)

lemma killAll_calls:
  "calls (gsap (killAll s)) =
     calls (gsap s) @ map Kill (activeAnimations s) @ [KillTweensOf ''*'']"
  by (simp add: killAll_def gsap_killTweensOf_def kill_each_calls)

text \<open>
  \<^verbatim>\<open>killAll\<close> empties the active set, calls \<^verbatim>\<open>kill()\<close> on every handle that was in
  it, keeps what had been killed before, and leaves the registry alone.
\<close>

lemma killAll_tracked:
  "activeAnimations (killAll s) = []"
  "h \<in> set (activeAnimations s) \<Longrightarrow> killed (gsap (killAll s)) h"
  "killed (gsap s) h \<Longrightarrow> killed (gsap (killAll s)) h"
  "timelines (killAll s) = timelines s"
  by (auto simp add: killed_def killAll_calls) (simp_all add: killAll_def)

text \<open>
  The handle \<^verbatim>\<open>animate\<close> returns is within reach of \<^verbatim>\<open>killAll\<close>, every method keeps
  a handle within reach, and \<^verbatim>\<open>killAll\<close> stops every handle within reach.
\<close>

lemma animate_reachable:
  "reachable (snd (animate element properties options s))
     (fst (animate element properties options s))"
  "reachable s h \<Longrightarrow> reachable (snd (animate element properties options s)) h"
  by (auto simp add: reachable_def animate_def gsap_to_def set_add_def killed_def)

lemma gsap_set_reachable:
  "reachable (s\<lparr>gsap := gsap_set t vars (gsap s)\<rparr>) h = reachable s h"
  by (simp add: reachable_def gsap_set_def killed_def)

lemma presets_reachable:
  assumes "reachable s h"
  shows "reachable (snd (fadeIn element options s)) h"
    and "reachable (snd (fadeOut element options s)) h"
    and "reachable (snd (slideUp element options s)) h"
    and "reachable (snd (slideDown co element options s)) h"
    and "reachable (snd (slideLeft element options s)) h"
    and "reachable (snd (slideRight co element options s)) h"
    and "reachable (snd (scaleUp element options s)) h"
    and "reachable (snd (scaleDown element options s)) h"
    and "reachable (snd (rotateIn element options s)) h"
    and "reachable (snd (rotateOut element options s)) h"
    and "reachable (snd (bounceIn element options s)) h"
    and "reachable (snd (elastic element options s)) h"
    and "reachable (snd (flip element options s)) h"
  using assms
  by (simp_all add: fadeIn_def fadeOut_def slideUp_def slideDown_def slideLeft_def
      slideRight_def scaleUp_def scaleDown_def rotateIn_def rotateOut_def bounceIn_def
      elastic_def flip_def animate_reachable(2) gsap_set_reachable Let_def)

lemma direct_presets_reachable:
  assumes "reachable s h"
  shows "reachable (snd (shake co element options s)) h"
    and "reachable (snd (pulse element options s)) h"
    and "reachable (snd (staggerFadeIn element options s)) h"
    and "reachable (snd (staggerSlideUp element options s)) h"
    and "reachable (snd (staggerScale element options s)) h"
  using assms
  by (simp_all add: reachable_def killed_def shake_def pulse_def staggerFadeIn_def
      staggerSlideUp_def staggerScale_def gsap_timeline_def timeline_to_def gsap_to_def
      gsap_set_def Let_def)

lemma registry_reachable:
  assumes "reachable s h"
  shows "reachable (snd (createTimeline name options s)) h"
    and "reachable (playTimeline name s) h"
    and "reachable (pauseTimeline name s) h"
    and "reachable (reverseTimeline name s) h"
    and "reachable (restartTimeline name s) h"
    and "reachable (resetElement element s) h"
  using assms
  by (simp_all add: reachable_def killed_def createTimeline_def playTimeline_def
      pauseTimeline_def reverseTimeline_def restartTimeline_def resetElement_def
      gsap_timeline_def handle_play_def handle_pause_def handle_reverse_def
      handle_restart_def gsap_set_def split: option.splits)

lemma killAnimation_reachable:
  "reachable s h \<Longrightarrow> killAnimation v s = Inr s' \<Longrightarrow> reachable s' h"
  by (auto simp add: reachable_def killed_def killAnimation_def handle_kill_def object_kill_def
      set_delete_def
      split: if_splits jsval.splits)

lemma killAll_reachable: "reachable s h \<Longrightarrow> killed (gsap (killAll s)) h"
  by (auto simp add: reachable_def killAll_tracked)

section \<open>The claims\<close>

subsection \<open>C1: handles and the active set\<close>

text \<open>
  C1 says that every preset method and \<^verbatim>\<open>animate\<close> insert the handle they return into
  \<^verbatim>\<open>activeAnimations\<close> before returning. \<^verbatim>\<open>animate\<close> does, and so does every preset
  that calls it (\<open>animate_tracks\<close>, \<open>presets_track\<close>). The five methods that call the
  engine directly do not: on a new library object, the handle returned by \<^verbatim>\<open>shake\<close>,
  \<^verbatim>\<open>pulse\<close>, \<^verbatim>\<open>staggerFadeIn\<close>, \<^verbatim>\<open>staggerSlideUp\<close> and \<^verbatim>\<open>staggerScale\<close> is not
  in the active set when the method has returned.
\<close>

theorem untracked_handles:
  "fst (shake (\<lambda>v. NaN) (Element 0) Map.empty new_library) \<notin>
     set (activeAnimations (snd (shake (\<lambda>v. NaN) (Element 0) Map.empty new_library))) \<and>
   fst (pulse (Element 0) Map.empty new_library) \<notin>
     set (activeAnimations (snd (pulse (Element 0) Map.empty new_library))) \<and>
   fst (staggerFadeIn (Elements [0, 1]) Map.empty new_library) \<notin>
     set (activeAnimations (snd (staggerFadeIn (Elements [0, 1]) Map.empty new_library))) \<and>
   fst (staggerSlideUp (Elements [0, 1]) Map.empty new_library) \<notin>
     set (activeAnimations (snd (staggerSlideUp (Elements [0, 1]) Map.empty new_library))) \<and>
   fst (staggerScale (Elements [0, 1]) Map.empty new_library) \<notin>
     set (activeAnimations (snd (staggerScale (Elements [0, 1]) Map.empty new_library)))"
  by (simp add: shake_def pulse_def staggerFadeIn_def staggerSlideUp_def staggerScale_def
      gsap_timeline_def gsap_to_def new_library_def Let_def)

subsection \<open>C2: the configuration of \<^verbatim>\<open>animate\<close>\<close>

text \<open>
  C2 as stated: \<^verbatim>\<open>animate\<close> submits one engine animation whose configuration is the
  merge of \<^verbatim>\<open>{duration: 1, ease: 'power2.out', delay: 0}\<close>, the options and the raw
  properties, the raw properties winning on every key. It fails when both the options and
  the raw properties carry \<^verbatim>\<open>onStart\<close>: the code assigns \<^verbatim>\<open>options.onStart\<close> after
  the merge, so the configuration submitted is not the claimed one.
\<close>

theorem animate_config_counterexample:
  "calls (gsap (snd (animate (Element 0) [''onStart'' \<mapsto> JFn 1] [''onStart'' \<mapsto> JFn 2]
      new_library))) \<noteq>
   [GsapTo 0 (Element 0) (claimed_config [''onStart'' \<mapsto> JFn 1] [''onStart'' \<mapsto> JFn 2])]"
proof
  assume "calls (gsap (snd (animate (Element 0) [''onStart'' \<mapsto> JFn 1]
      [''onStart'' \<mapsto> JFn 2] new_library))) =
    [GsapTo 0 (Element 0) (claimed_config [''onStart'' \<mapsto> JFn 1] [''onStart'' \<mapsto> JFn 2])]"
  then have "animate_config [''onStart'' \<mapsto> JFn 1] [''onStart'' \<mapsto> JFn 2] =
      claimed_config [''onStart'' \<mapsto> JFn 1] [''onStart'' \<mapsto> JFn 2]"
    by (simp add: animate_gsap new_library_def fresh_engine_def)
  then have "animate_config [''onStart'' \<mapsto> JFn 1] [''onStart'' \<mapsto> JFn 2] ''onStart'' =
      claimed_config [''onStart'' \<mapsto> JFn 1] [''onStart'' \<mapsto> JFn 2] ''onStart''"
    by simp
  then show False
    by (simp add: animate_config_key js_get_def claimed_config_def)
qed

text \<open>
  C2, amended: \<^verbatim>\<open>animate\<close> submits exactly one engine animation. Its configuration is
  the merge of the defaults \<^verbatim>\<open>{duration: 1, ease: 'power2.out', delay: 0, onComplete: null,
  onStart: null}\<close>, the options and the raw properties, later layers overriding earlier ones
  on every key, except that on \<^verbatim>\<open>onStart\<close> and \<^verbatim>\<open>onComplete\<close> a truthy value of the
  options wins over the raw properties.
\<close>

theorem animate_config_precedence:
  "gsap (snd (animate element properties options s)) =
     (gsap s)\<lparr>calls := calls (gsap s) @
                 [GsapTo (next_handle (gsap s)) element (animate_config properties options)],
              next_handle := Suc (next_handle (gsap s))\<rparr> \<and>
   animate_config properties options k =
     (if (k = ''onStart'' \<or> k = ''onComplete'') \<and> truthy (js_get options k)
      then Some (js_get options k)
      else case properties k of
             Some v \<Rightarrow> Some v
           | None \<Rightarrow> (case options k of Some v \<Rightarrow> Some v | None \<Rightarrow> defaults k)) \<and>
   defaults =
     [''duration'' \<mapsto> num 1, ''ease'' \<mapsto> JStr ''power2.out'', ''delay'' \<mapsto> num 0,
      ''onComplete'' \<mapsto> JNull, ''onStart'' \<mapsto> JNull]"
  using animate_gsap animate_config_key defaults_def by blast

text \<open>
  The amended C2 at a concrete call: \<^verbatim>\<open>animate(el, {x: 100, duration: 3}, {duration: 2,
  ease: 'none'})\<close> on a new library object.
\<close>

theorem animate_config_precedence_witness:
  "calls (gsap (snd (animate (Element 0) [''x'' \<mapsto> num 100, ''duration'' \<mapsto> num 3]
      [''duration'' \<mapsto> num 2, ''ease'' \<mapsto> JStr ''none''] new_library))) =
     [GsapTo 0 (Element 0)
        (animate_config [''x'' \<mapsto> num 100, ''duration'' \<mapsto> num 3]
           [''duration'' \<mapsto> num 2, ''ease'' \<mapsto> JStr ''none''])] \<and>
   animate_config [''x'' \<mapsto> num 100, ''duration'' \<mapsto> num 3]
     [''duration'' \<mapsto> num 2, ''ease'' \<mapsto> JStr ''none''] ''duration'' = Some (num 3) \<and>
   animate_config [''x'' \<mapsto> num 100, ''duration'' \<mapsto> num 3]
     [''duration'' \<mapsto> num 2, ''ease'' \<mapsto> JStr ''none''] ''ease'' = Some (JStr ''none'') \<and>
   animate_config [''x'' \<mapsto> num 100, ''duration'' \<mapsto> num 3]
     [''duration'' \<mapsto> num 2, ''ease'' \<mapsto> JStr ''none''] ''delay'' = Some (num 0)"
proof -
  note p = animate_config_precedence [of "Element 0"
      "[''x'' \<mapsto> num 100, ''duration'' \<mapsto> num 3]"
      "[''duration'' \<mapsto> num 2, ''ease'' \<mapsto> JStr ''none'']" new_library]
  have c: "calls (gsap (snd (animate (Element 0) [''x'' \<mapsto> num 100, ''duration'' \<mapsto> num 3]
      [''duration'' \<mapsto> num 2, ''ease'' \<mapsto> JStr ''none''] new_library))) =
     [GsapTo 0 (Element 0)
        (animate_config [''x'' \<mapsto> num 100, ''duration'' \<mapsto> num 3]
           [''duration'' \<mapsto> num 2, ''ease'' \<mapsto> JStr ''none''])]"
    using p [THEN conjunct1] by (simp add: new_library_def fresh_engine_def)
  have d: "animate_config [''x'' \<mapsto> num 100, ''duration'' \<mapsto> num 3]
     [''duration'' \<mapsto> num 2, ''ease'' \<mapsto> JStr ''none''] ''duration'' = Some (num 3)"
    using p [of "''duration''", THEN conjunct2, THEN conjunct1] by simp
  have e: "animate_config [''x'' \<mapsto> num 100, ''duration'' \<mapsto> num 3]
     [''duration'' \<mapsto> num 2, ''ease'' \<mapsto> JStr ''none''] ''ease'' = Some (JStr ''none'')"
    using p [of "''ease''", THEN conjunct2, THEN conjunct1] by simp
  have l: "animate_config [''x'' \<mapsto> num 100, ''duration'' \<mapsto> num 3]
     [''duration'' \<mapsto> num 2, ''ease'' \<mapsto> JStr ''none''] ''delay'' = Some (num 0)"
    using p [of "''delay''", THEN conjunct2, THEN conjunct1] by (simp add: defaults_def)
  show ?thesis
    using c d e l by simp
qed

subsection \<open>C3: the stagger variants and their singular counterparts\<close>

text \<open>
  C3 as stated: the stagger variants apply the same initial-state and final-state pairs as
  \<^verbatim>\<open>fadeIn\<close>, \<^verbatim>\<open>slideUp\<close> and \<^verbatim>\<open>scaleUp\<close>, and \<^verbatim>\<open>staggerSlideUp\<close> without a
  \<^verbatim>\<open>distance\<close> option starts from the offset 100, as \<^verbatim>\<open>slideUp\<close> does. It fails for the
  empty options object: \<^verbatim>\<open>staggerSlideUp\<close> does not set the initial state
  \<^verbatim>\<open>{y: 100, opacity: 0}\<close> that \<^verbatim>\<open>slideUp\<close> sets.
\<close>

theorem stagger_distance_counterexample:
  "initial_states (issued new_library
      (snd (staggerSlideUp (Elements [0, 1]) Map.empty new_library))) \<noteq>
     [[''y'' \<mapsto> num 100, ''opacity'' \<mapsto> num 0]] \<and>
   initial_states (issued new_library (snd (slideUp (Element 0) Map.empty new_library))) =
     [[''y'' \<mapsto> num 100, ''opacity'' \<mapsto> num 0]]"
proof -
  have "[''y'' \<mapsto> num 50, ''opacity'' \<mapsto> num 0] ''y'' \<noteq>
      [''y'' \<mapsto> num 100, ''opacity'' \<mapsto> num 0] ''y''"
    by simp
  then have "[''y'' \<mapsto> num 50, ''opacity'' \<mapsto> num 0] \<noteq>
      [''y'' \<mapsto> num 100, ''opacity'' \<mapsto> num 0]"
    by metis
  then show ?thesis
    by (simp add: slideUp_initial staggerSlideUp_initial js_get_def js_or_def)
qed

text \<open>
  C3, amended: for every collection of targets, every element and every options object,
  each stagger variant sets the same initial-state keys and animates the same final-state
  pairs as its singular counterpart; the values agree for the fade and scale presets; for
  the slide presets the final state agrees and the initial offset is
  \<^verbatim>\<open>options.distance\<close> when that is truthy, and otherwise 50 for \<^verbatim>\<open>staggerSlideUp\<close>
  and 100 for \<^verbatim>\<open>slideUp\<close>. The final state is read at the keys the preset animates.
\<close>

theorem stagger_states:
  "initial_states (issued s (snd (staggerFadeIn elements options s))) =
     [[''opacity'' \<mapsto> num 0]] \<and>
   initial_states (issued t (snd (fadeIn element options t))) = [[''opacity'' \<mapsto> num 0]] \<and>
   final_states {''opacity''} (issued s (snd (staggerFadeIn elements options s))) =
     [[''opacity'' \<mapsto> num 1]] \<and>
   final_states {''opacity''} (issued t (snd (fadeIn element options t))) =
     [[''opacity'' \<mapsto> num 1]] \<and>
   initial_states (issued s (snd (staggerScale elements options s))) =
     [[''scale'' \<mapsto> num 0, ''opacity'' \<mapsto> num 0]] \<and>
   initial_states (issued t (snd (scaleUp element options t))) =
     [[''scale'' \<mapsto> num 0, ''opacity'' \<mapsto> num 0]] \<and>
   final_states {''scale'', ''opacity''} (issued s (snd (staggerScale elements options s))) =
     [[''scale'' \<mapsto> num 1, ''opacity'' \<mapsto> num 1]] \<and>
   final_states {''scale'', ''opacity''} (issued t (snd (scaleUp element options t))) =
     [[''scale'' \<mapsto> num 1, ''opacity'' \<mapsto> num 1]] \<and>
   initial_states (issued s (snd (staggerSlideUp elements options s))) =
     [[''y'' \<mapsto> js_or (js_get options ''distance'') (num 50), ''opacity'' \<mapsto> num 0]] \<and>
   initial_states (issued t (snd (slideUp element options t))) =
     [[''y'' \<mapsto> js_or (js_get options ''distance'') (num 100), ''opacity'' \<mapsto> num 0]] \<and>
   final_states {''y'', ''opacity''} (issued s (snd (staggerSlideUp elements options s))) =
     [[''y'' \<mapsto> num 0, ''opacity'' \<mapsto> num 1]] \<and>
   final_states {''y'', ''opacity''} (issued t (snd (slideUp element options t))) =
     [[''y'' \<mapsto> num 0, ''opacity'' \<mapsto> num 1]]"
proof -
  have f: "animate_config [''opacity'' \<mapsto> num 1] options |` {''opacity''} =
      [''opacity'' \<mapsto> num 1]"
    by (rule animate_config_final) auto
  have sc: "animate_config [''scale'' \<mapsto> num 1, ''opacity'' \<mapsto> num 1]
        ([''ease'' \<mapsto> JStr ''back.out(1.7)''] ++ options) |` {''scale'', ''opacity''} =
      [''scale'' \<mapsto> num 1, ''opacity'' \<mapsto> num 1]"
    by (rule animate_config_final) auto
  show ?thesis
    by (simp add: stagger_issued fadeIn_def scaleUp_def slideUp_def animate_issued
        initial_states_def final_states_def f sc slide_final
        restrict_opacity restrict_y_opacity restrict_scale_opacity)
qed

text \<open>
  The amended C3 at \<^verbatim>\<open>{distance: 30}\<close>: both slide presets start from the offset 30.
\<close>

theorem stagger_states_witness:
  "initial_states (issued new_library
      (snd (staggerSlideUp (Elements [0, 1]) [''distance'' \<mapsto> num 30] new_library))) =
     [[''y'' \<mapsto> num 30, ''opacity'' \<mapsto> num 0]] \<and>
   initial_states (issued new_library
      (snd (slideUp (Element 0) [''distance'' \<mapsto> num 30] new_library))) =
     [[''y'' \<mapsto> num 30, ''opacity'' \<mapsto> num 0]]"
  using stagger_states [of new_library "Elements [0, 1]" "[''distance'' \<mapsto> num 30]"
      new_library "Element 0"]
  by (simp add: js_get_def js_or_def)

subsection \<open>C4: \<^verbatim>\<open>killAll\<close>\<close>

text \<open>
  C4 says that after \<^verbatim>\<open>killAll\<close> the active set is empty and every handle the library
  ever produced is stopped. The active set is empty, and \<^verbatim>\<open>kill()\<close> has been called on
  every handle that was in it (\<open>killAll_tracked\<close>); a handle returned by \<^verbatim>\<open>animate\<close>
  or by a preset built on it is stopped after \<^verbatim>\<open>killAll\<close>, whatever was called in
  between (\<open>animate_reachable\<close> to \<open>killAll_reachable\<close>). A handle that was never
  tracked is not reached: after \<^verbatim>\<open>fadeIn(a)\<close>, \<^verbatim>\<open>shake(b)\<close> and \<^verbatim>\<open>killAll()\<close> on a new library
  object, the tween of \<^verbatim>\<open>fadeIn\<close> (handle 0) has been killed, the timeline of
  \<^verbatim>\<open>shake\<close> (handle 1) has not; the calls \<^verbatim>\<open>killAll\<close> makes are \<^verbatim>\<open>kill()\<close> on
  handle 0 and \<^verbatim>\<open>gsap.killTweensOf('*')\<close>.
\<close>

theorem killAll_misses_shake:
  "fst (fadeIn (Element 0) Map.empty new_library) = 0 \<and>
   fst (shake (\<lambda>v. NaN) (Element 1) Map.empty
          (snd (fadeIn (Element 0) Map.empty new_library))) = 1 \<and>
   activeAnimations (killAll (snd (shake (\<lambda>v. NaN) (Element 1) Map.empty
          (snd (fadeIn (Element 0) Map.empty new_library))))) = [] \<and>
   drop 8 (calls (gsap (killAll (snd (shake (\<lambda>v. NaN) (Element 1) Map.empty
          (snd (fadeIn (Element 0) Map.empty new_library))))))) =
     [Kill 0, KillTweensOf ''*''] \<and>
   killed (gsap (killAll (snd (shake (\<lambda>v. NaN) (Element 1) Map.empty
          (snd (fadeIn (Element 0) Map.empty new_library)))))) 0 \<and>
   \<not> killed (gsap (killAll (snd (shake (\<lambda>v. NaN) (Element 1) Map.empty
          (snd (fadeIn (Element 0) Map.empty new_library)))))) 1"
  by (simp add: killed_def killAll_calls killAll_tracked(1) fadeIn_def animate_def gsap_to_def
      gsap_set_def shake_def gsap_timeline_def timeline_to_def set_add_def new_library_def
      fresh_engine_def Let_def)

subsection \<open>C5: \<^verbatim>\<open>shake\<close>\<close>

text \<open>
  C5: for every element and every options object, \<^verbatim>\<open>shake\<close> creates one timeline and
  appends exactly five steps on \<^verbatim>\<open>x\<close>: \<^verbatim>\<open>-intensity\<close>, \<^verbatim>\<open>intensity\<close>,
  \<^verbatim>\<open>-intensity\<close>, \<^verbatim>\<open>intensity\<close>, 0, each of duration 0.1, where \<^verbatim>\<open>intensity\<close> is
  \<^verbatim>\<open>options.intensity\<close> when that is truthy and 10 otherwise; a \<^verbatim>\<open>duration\<close> option
  changes nothing.
\<close>

theorem shake_sequence:
  "shake co element options s =
     (let intensity =
            (if truthy (case options ''intensity'' of None \<Rightarrow> JUndefined | Some v \<Rightarrow> v)
             then (case options ''intensity'' of None \<Rightarrow> JUndefined | Some v \<Rightarrow> v)
             else num 10)
      in (next_handle (gsap s),
          s\<lparr>gsap := (gsap s)
              \<lparr>calls := calls (gsap s) @
                 [GsapTimeline (next_handle (gsap s)) None,
                  TimelineTo (next_handle (gsap s)) element
                    [''x'' \<mapsto> JNum (num_neg (to_number co intensity)),
                     ''duration'' \<mapsto> num (1 / 10)],
                  TimelineTo (next_handle (gsap s)) element
                    [''x'' \<mapsto> intensity, ''duration'' \<mapsto> num (1 / 10)],
                  TimelineTo (next_handle (gsap s)) element
                    [''x'' \<mapsto> JNum (num_neg (to_number co intensity)),
                     ''duration'' \<mapsto> num (1 / 10)],
                  TimelineTo (next_handle (gsap s)) element
                    [''x'' \<mapsto> intensity, ''duration'' \<mapsto> num (1 / 10)],
                  TimelineTo (next_handle (gsap s)) element
                    [''x'' \<mapsto> num 0, ''duration'' \<mapsto> num (1 / 10)]],
               next_handle := Suc (next_handle (gsap s))\<rparr>\<rparr>)) \<and>
   shake co element (options(''duration'' \<mapsto> d)) s = shake co element options s"
  by (simp add: shake_def gsap_timeline_def timeline_to_def js_get_def js_or_def js_neg_def
      Let_def)

text \<open>
  C5 at three option objects. With no \<^verbatim>\<open>intensity\<close>, \<^verbatim>\<open>shake(el, {})\<close> goes through
  -10, 10, -10, 10, 0. The scenario of the specification, \<^verbatim>\<open>shake(el, {intensity: 5})\<close>,
  here with a \<^verbatim>\<open>duration\<close> of 3 passed as well, goes through -5, 5, -5, 5, 0. With the
  falsy \<^verbatim>\<open>intensity: 0\<close> the default 10 is used again.
\<close>

theorem shake_sequence_witness:
  "calls (gsap (snd (shake (\<lambda>v. NaN) (Element 7) Map.empty new_library))) =
     [GsapTimeline 0 None,
      TimelineTo 0 (Element 7) [''x'' \<mapsto> num (- 10), ''duration'' \<mapsto> num (1 / 10)],
      TimelineTo 0 (Element 7) [''x'' \<mapsto> num 10, ''duration'' \<mapsto> num (1 / 10)],
      TimelineTo 0 (Element 7) [''x'' \<mapsto> num (- 10), ''duration'' \<mapsto> num (1 / 10)],
      TimelineTo 0 (Element 7) [''x'' \<mapsto> num 10, ''duration'' \<mapsto> num (1 / 10)],
      TimelineTo 0 (Element 7) [''x'' \<mapsto> num 0, ''duration'' \<mapsto> num (1 / 10)]] \<and>
   calls (gsap (snd (shake (\<lambda>v. NaN) (Element 7)
      [''intensity'' \<mapsto> num 5, ''duration'' \<mapsto> num 3] new_library))) =
     [GsapTimeline 0 None,
      TimelineTo 0 (Element 7) [''x'' \<mapsto> num (- 5), ''duration'' \<mapsto> num (1 / 10)],
      TimelineTo 0 (Element 7) [''x'' \<mapsto> num 5, ''duration'' \<mapsto> num (1 / 10)],
      TimelineTo 0 (Element 7) [''x'' \<mapsto> num (- 5), ''duration'' \<mapsto> num (1 / 10)],
      TimelineTo 0 (Element 7) [''x'' \<mapsto> num 5, ''duration'' \<mapsto> num (1 / 10)],
      TimelineTo 0 (Element 7) [''x'' \<mapsto> num 0, ''duration'' \<mapsto> num (1 / 10)]] \<and>
   calls (gsap (snd (shake (\<lambda>v. NaN) (Element 7) [''intensity'' \<mapsto> num 0] new_library))) =
     [GsapTimeline 0 None,
      TimelineTo 0 (Element 7) [''x'' \<mapsto> num (- 10), ''duration'' \<mapsto> num (1 / 10)],
      TimelineTo 0 (Element 7) [''x'' \<mapsto> num 10, ''duration'' \<mapsto> num (1 / 10)],
      TimelineTo 0 (Element 7) [''x'' \<mapsto> num (- 10), ''duration'' \<mapsto> num (1 / 10)],
      TimelineTo 0 (Element 7) [''x'' \<mapsto> num 10, ''duration'' \<mapsto> num (1 / 10)],
      TimelineTo 0 (Element 7) [''x'' \<mapsto> num 0, ''duration'' \<mapsto> num (1 / 10)]]"
  using
    shake_sequence [of "\<lambda>v. NaN" "Element 7" Map.empty new_library]
    shake_sequence [of "\<lambda>v. NaN" "Element 7"
      "[''intensity'' \<mapsto> num 5, ''duration'' \<mapsto> num 3]" new_library]
    shake_sequence [of "\<lambda>v. NaN" "Element 7" "[''intensity'' \<mapsto> num 0]" new_library]
  by (simp add: new_library_def fresh_engine_def Let_def)

subsection \<open>C6: the registry keeps the last timeline created under a name\<close>

text \<open>
  C6: for every name and all options, \<^verbatim>\<open>getTimeline(name)\<close> after
  \<^verbatim>\<open>createTimeline(name, options)\<close> is the handle that call returned; after a second
  \<^verbatim>\<open>createTimeline(name, options2)\<close> it is the second handle, which is another handle
  than the first.
\<close>

theorem createTimeline_getTimeline:
  "getTimeline name (snd (createTimeline name options s)) =
     Some (fst (createTimeline name options s)) \<and>
   getTimeline name
     (snd (createTimeline name options2 (snd (createTimeline name options s)))) =
     Some (fst (createTimeline name options2 (snd (createTimeline name options s)))) \<and>
   fst (createTimeline name options2 (snd (createTimeline name options s))) \<noteq>
     fst (createTimeline name options s)"
  by (simp add: createTimeline_def getTimeline_def gsap_timeline_def)

subsection \<open>C7: control operations on an unknown name\<close>

text \<open>
  C7: for a name the registry does not hold, \<^verbatim>\<open>playTimeline\<close>, \<^verbatim>\<open>pauseTimeline\<close>,
  \<^verbatim>\<open>reverseTimeline\<close> and \<^verbatim>\<open>restartTimeline\<close> return normally and leave the whole
  state as it was: the registry, the active set, and the engine, on which no call is made.
\<close>

theorem unknown_timeline_noop:
  "timelines s name = None \<Longrightarrow>
     playTimeline name s = s \<and> pauseTimeline name s = s \<and>
     reverseTimeline name s = s \<and> restartTimeline name s = s"
  by (simp add: playTimeline_def pauseTimeline_def reverseTimeline_def restartTimeline_def)

text \<open>C7 with the timeline \<^verbatim>\<open>intro\<close> registered and the name \<^verbatim>\<open>outro\<close> asked for.\<close>

theorem unknown_timeline_noop_witness:
  "timelines (snd (createTimeline ''intro'' Map.empty new_library)) ''outro'' = None \<and>
   playTimeline ''outro'' (snd (createTimeline ''intro'' Map.empty new_library)) =
     snd (createTimeline ''intro'' Map.empty new_library) \<and>
   pauseTimeline ''outro'' (snd (createTimeline ''intro'' Map.empty new_library)) =
     snd (createTimeline ''intro'' Map.empty new_library) \<and>
   reverseTimeline ''outro'' (snd (createTimeline ''intro'' Map.empty new_library)) =
     snd (createTimeline ''intro'' Map.empty new_library) \<and>
   restartTimeline ''outro'' (snd (createTimeline ''intro'' Map.empty new_library)) =
     snd (createTimeline ''intro'' Map.empty new_library)"
proof -
  have h: "timelines (snd (createTimeline ''intro'' Map.empty new_library)) ''outro'' = None"
    by (simp add: createTimeline_def gsap_timeline_def new_library_def)
  show ?thesis
    using h unknown_timeline_noop [OF h] by simp
qed

subsection \<open>C8: \<^verbatim>\<open>killAnimation\<close> on a tracked handle\<close>

text \<open>
  C8: for a handle \<open>h\<close> of the active set, \<^verbatim>\<open>killAnimation(h)\<close> returns normally; the
  active set loses \<open>h\<close> and nothing else, the one call made on the engine is \<^verbatim>\<open>kill()\<close>
  on \<open>h\<close>, so every other handle is stopped afterwards exactly if it was before, and the
  registry is unchanged.
\<close>

theorem killAnimation_frame:
  "h \<in> set (activeAnimations s) \<Longrightarrow>
     killAnimation (JAnim h) s =
       Inr (s\<lparr>gsap := (gsap s)\<lparr>calls := calls (gsap s) @ [Kill h]\<rparr>,
              activeAnimations := removeAll h (activeAnimations s)\<rparr>) \<and>
     set (removeAll h (activeAnimations s)) = set (activeAnimations s) - {h} \<and>
     (\<forall>g. g \<noteq> h \<longrightarrow>
        killed ((gsap s)\<lparr>calls := calls (gsap s) @ [Kill h]\<rparr>) g = killed (gsap s) g)"
  by (simp add: killAnimation_def handle_kill_def set_delete_def killed_def)

text \<open>C8 on the library object with the tweens 0 and 1: killing 0 leaves 1 active and running.\<close>

theorem killAnimation_frame_witness:
  "0 \<in> set (activeAnimations two_tweens) \<and>
   killAnimation (JAnim 0) two_tweens =
     Inr (two_tweens\<lparr>gsap := (gsap two_tweens)\<lparr>calls := calls (gsap two_tweens) @ [Kill 0]\<rparr>,
            activeAnimations := [1]\<rparr>) \<and>
   killed ((gsap two_tweens)\<lparr>calls := calls (gsap two_tweens) @ [Kill 0]\<rparr>) 1 = False"
proof -
  have a: "activeAnimations two_tweens = [0, 1]"
    by (simp add: two_tweens_def fadeOut_def animate_def gsap_to_def set_add_def
        new_library_def fresh_engine_def)
  have k: "killed (gsap two_tweens) 1 = False"
    by (simp add: two_tweens_def fadeOut_def animate_def gsap_to_def killed_def
        new_library_def fresh_engine_def)
  have h: "0 \<in> set (activeAnimations two_tweens)"
    by (simp add: a)
  show ?thesis
    using killAnimation_frame [OF h] a k by simp
qed

subsection \<open>C9: the directional slide presets\<close>

text \<open>
  C9 as stated: for every options record, \<^verbatim>\<open>slideUp\<close> sets the offset \<^verbatim>\<open>+distance\<close>
  on \<^verbatim>\<open>y\<close>, and so on for the other three presets. It fails for the record
  \<^verbatim>\<open>{distance: 0}\<close>: the initial state \<^verbatim>\<open>slideUp\<close> sets is not
  \<^verbatim>\<open>{y: 0, opacity: 0}\<close> but \<^verbatim>\<open>{y: 100, opacity: 0}\<close>, because the code reads
  \<^verbatim>\<open>options.distance || 100\<close> and 0 is falsy.
\<close>

theorem slide_distance_counterexample:
  "initial_states (issued new_library
      (snd (slideUp (Element 0) [''distance'' \<mapsto> num 0] new_library))) \<noteq>
     [[''y'' \<mapsto> num 0, ''opacity'' \<mapsto> num 0]] \<and>
   initial_states (issued new_library
      (snd (slideUp (Element 0) [''distance'' \<mapsto> num 0] new_library))) =
     [[''y'' \<mapsto> num 100, ''opacity'' \<mapsto> num 0]]"
proof -
  have "[''y'' \<mapsto> num 100, ''opacity'' \<mapsto> num 0] ''y'' \<noteq>
      [''y'' \<mapsto> num 0, ''opacity'' \<mapsto> num 0] ''y''"
    by simp
  then have "[''y'' \<mapsto> num 100, ''opacity'' \<mapsto> num 0] \<noteq>
      [''y'' \<mapsto> num 0, ''opacity'' \<mapsto> num 0]"
    by metis
  then show ?thesis
    by (simp add: slideUp_initial js_get_def js_or_def)
qed

text \<open>
  C9, amended: for every element and every options record, with \<open>d\<close> being
  \<^verbatim>\<open>options.distance\<close> when that is truthy and 100 otherwise (so 100 also for the
  distance 0), each slide preset first sets its initial state and then submits one
  animation: \<^verbatim>\<open>slideUp\<close> sets \<^verbatim>\<open>y\<close> to \<open>d\<close>, \<^verbatim>\<open>slideDown\<close> sets \<^verbatim>\<open>y\<close> to
  \<open>-d\<close>, \<^verbatim>\<open>slideLeft\<close> sets \<^verbatim>\<open>x\<close> to \<open>d\<close>, \<^verbatim>\<open>slideRight\<close> sets \<^verbatim>\<open>x\<close> to
  \<open>-d\<close>, each with opacity 0; the animation goes to offset 0 and opacity 1. The unary
  minus of a number is its negation.
\<close>

theorem slide_directions:
  "(let d = (if truthy (case options ''distance'' of None \<Rightarrow> JUndefined | Some v \<Rightarrow> v)
             then (case options ''distance'' of None \<Rightarrow> JUndefined | Some v \<Rightarrow> v)
             else num 100)
    in issued s (snd (slideUp element options s)) =
         [GsapSet element [''y'' \<mapsto> d, ''opacity'' \<mapsto> num 0],
          GsapTo (next_handle (gsap s)) element
            (animate_config [''y'' \<mapsto> num 0, ''opacity'' \<mapsto> num 1] options)] \<and>
       issued s (snd (slideDown co element options s)) =
         [GsapSet element
            [''y'' \<mapsto> JNum (num_neg (to_number co d)), ''opacity'' \<mapsto> num 0],
          GsapTo (next_handle (gsap s)) element
            (animate_config [''y'' \<mapsto> num 0, ''opacity'' \<mapsto> num 1] options)] \<and>
       issued s (snd (slideLeft element options s)) =
         [GsapSet element [''x'' \<mapsto> d, ''opacity'' \<mapsto> num 0],
          GsapTo (next_handle (gsap s)) element
            (animate_config [''x'' \<mapsto> num 0, ''opacity'' \<mapsto> num 1] options)] \<and>
       issued s (snd (slideRight co element options s)) =
         [GsapSet element
            [''x'' \<mapsto> JNum (num_neg (to_number co d)), ''opacity'' \<mapsto> num 0],
          GsapTo (next_handle (gsap s)) element
            (animate_config [''x'' \<mapsto> num 0, ''opacity'' \<mapsto> num 1] options)]) \<and>
   animate_config [''y'' \<mapsto> num 0, ''opacity'' \<mapsto> num 1] options |` {''y'', ''opacity''} =
     [''y'' \<mapsto> num 0, ''opacity'' \<mapsto> num 1] \<and>
   animate_config [''x'' \<mapsto> num 0, ''opacity'' \<mapsto> num 1] options |` {''x'', ''opacity''} =
     [''x'' \<mapsto> num 0, ''opacity'' \<mapsto> num 1] \<and>
   num_neg (to_number co (num r)) = (if r = 0 then NegZero else Fin (- r))"
  by (simp add: slideUp_def slideDown_def slideLeft_def slideRight_def animate_issued
      slide_final js_neg_def js_or_def js_get_def Let_def)

text \<open>
  The amended C9 at three option objects: with no \<^verbatim>\<open>distance\<close> the initial offsets are
  100, -100, 100 and -100; with \<^verbatim>\<open>distance: 30\<close> they are 30, -30, 30 and -30; with the
  falsy \<^verbatim>\<open>distance: 0\<close> they are those of the default again.
\<close>

theorem slide_directions_witness:
  "initial_states (issued new_library (snd (slideUp (Element 0) Map.empty new_library))) =
     [[''y'' \<mapsto> num 100, ''opacity'' \<mapsto> num 0]] \<and>
   initial_states
     (issued new_library (snd (slideDown (\<lambda>v. NaN) (Element 0) Map.empty new_library))) =
     [[''y'' \<mapsto> num (- 100), ''opacity'' \<mapsto> num 0]] \<and>
   initial_states (issued new_library (snd (slideLeft (Element 0) Map.empty new_library))) =
     [[''x'' \<mapsto> num 100, ''opacity'' \<mapsto> num 0]] \<and>
   initial_states
     (issued new_library (snd (slideRight (\<lambda>v. NaN) (Element 0) Map.empty new_library))) =
     [[''x'' \<mapsto> num (- 100), ''opacity'' \<mapsto> num 0]] \<and>
   initial_states (issued new_library
     (snd (slideUp (Element 0) [''distance'' \<mapsto> num 30] new_library))) =
     [[''y'' \<mapsto> num 30, ''opacity'' \<mapsto> num 0]] \<and>
   initial_states (issued new_library
     (snd (slideDown (\<lambda>v. NaN) (Element 0) [''distance'' \<mapsto> num 30] new_library))) =
     [[''y'' \<mapsto> num (- 30), ''opacity'' \<mapsto> num 0]] \<and>
   initial_states (issued new_library
     (snd (slideLeft (Element 0) [''distance'' \<mapsto> num 30] new_library))) =
     [[''x'' \<mapsto> num 30, ''opacity'' \<mapsto> num 0]] \<and>
   initial_states (issued new_library
     (snd (slideRight (\<lambda>v. NaN) (Element 0) [''distance'' \<mapsto> num 30] new_library))) =
     [[''x'' \<mapsto> num (- 30), ''opacity'' \<mapsto> num 0]] \<and>
   initial_states (issued new_library
     (snd (slideDown (\<lambda>v. NaN) (Element 0) [''distance'' \<mapsto> num 0] new_library))) =
     [[''y'' \<mapsto> num (- 100), ''opacity'' \<mapsto> num 0]] \<and>
   initial_states (issued new_library
     (snd (slideRight (\<lambda>v. NaN) (Element 0) [''distance'' \<mapsto> num 0] new_library))) =
     [[''x'' \<mapsto> num (- 100), ''opacity'' \<mapsto> num 0]]"
  using
    slide_directions [of Map.empty new_library "Element 0" "\<lambda>v. NaN"]
    slide_directions [of "[''distance'' \<mapsto> num 30]" new_library "Element 0" "\<lambda>v. NaN"]
    slide_directions [of "[''distance'' \<mapsto> num 0]" new_library "Element 0" "\<lambda>v. NaN"]
  by (simp add: initial_states_def Let_def)

subsection \<open>C10: \<^verbatim>\<open>killAnimation\<close> on \<^verbatim>\<open>null\<close> and \<^verbatim>\<open>undefined\<close>\<close>

text \<open>
  C10: \<^verbatim>\<open>killAnimation(null)\<close> and \<^verbatim>\<open>killAnimation(undefined)\<close> return normally and
  leave the state as it was: the active set, the registry, and the engine, on which no call
  is made.
\<close>

theorem killAnimation_falsy:
  "killAnimation JNull s = Inr s \<and> killAnimation JUndefined s = Inr s"
  by (simp add: killAnimation_def)

end
